theory Spec2Isabelle
  imports Complex_Main
begin

section \<open>Floating-point values\<close>

text \<open>
  The acquisition functions compute on numpy \<open>float64\<close> values. They are modelled as real
  numbers extended with the IEEE special values: the two infinities, \<open>NaN\<close>, and the negative
  zero \<open>NZero\<close> (\<open>Fin 0\<close> is the positive zero). The special values arise and propagate as
  numpy produces them (numpy's default error state warns on a division by zero or an
  invalid operation and returns the IEEE result), and the sign of a zero result follows
  the IEEE rules. Arithmetic on finite values is exact: rounding, overflow and underflow
  are not modelled, so a theorem over this model speaks for the float program only where
  its conclusion does not depend on how a finite result is rounded.
\<close>

datatype fl = Fin real | NZero | PInf | NInf | NaN

definition signed_zero :: "bool \<Rightarrow> fl" where
  "signed_zero negative = (if negative then NZero else Fin 0)"

definition inf_of_sign :: "real \<Rightarrow> fl" where
  "inf_of_sign x = (if x = 0 then NaN else if 0 < x then PInf else NInf)"

fun fneg :: "fl \<Rightarrow> fl" where
  "fneg (Fin x) = (if x = 0 then NZero else Fin (- x))"
| "fneg NZero = Fin 0"
| "fneg PInf = NInf"
| "fneg NInf = PInf"
| "fneg NaN = NaN"

fun fabs :: "fl \<Rightarrow> fl" where
  "fabs (Fin x) = Fin \<bar>x\<bar>"
| "fabs NZero = Fin 0"
| "fabs PInf = PInf"
| "fabs NInf = PInf"
| "fabs NaN = NaN"

fun fadd :: "fl \<Rightarrow> fl \<Rightarrow> fl" where
  "fadd (Fin x) (Fin y) = Fin (x + y)"
| "fadd (Fin x) NZero = Fin x"
| "fadd NZero (Fin y) = Fin y"
| "fadd NZero NZero = NZero"
| "fadd NaN _ = NaN"
| "fadd _ NaN = NaN"
| "fadd PInf NInf = NaN"
| "fadd NInf PInf = NaN"
| "fadd PInf _ = PInf"
| "fadd _ PInf = PInf"
| "fadd NInf _ = NInf"
| "fadd _ NInf = NInf"

definition fsub :: "fl \<Rightarrow> fl \<Rightarrow> fl" where
  "fsub a b = fadd a (fneg b)"

fun fmul :: "fl \<Rightarrow> fl \<Rightarrow> fl" where
  "fmul (Fin x) (Fin y) = (if x * y = 0 then signed_zero (x < 0 \<or> y < 0) else Fin (x * y))"
| "fmul (Fin x) NZero = signed_zero (0 \<le> x)"
| "fmul NZero (Fin y) = signed_zero (0 \<le> y)"
| "fmul NZero NZero = Fin 0"
| "fmul NaN _ = NaN"
| "fmul _ NaN = NaN"
| "fmul NZero _ = NaN"
| "fmul _ NZero = NaN"
| "fmul (Fin x) PInf = inf_of_sign x"
| "fmul (Fin x) NInf = inf_of_sign (- x)"
| "fmul PInf (Fin y) = inf_of_sign y"
| "fmul NInf (Fin y) = inf_of_sign (- y)"
| "fmul PInf PInf = PInf"
| "fmul PInf NInf = NInf"
| "fmul NInf PInf = NInf"
| "fmul NInf NInf = PInf"

fun fdiv :: "fl \<Rightarrow> fl \<Rightarrow> fl" where
  "fdiv (Fin x) (Fin y) =
     (if y = 0 then inf_of_sign x else if x = 0 then signed_zero (y < 0) else Fin (x / y))"
| "fdiv (Fin x) NZero = inf_of_sign (- x)"
| "fdiv NZero (Fin y) = (if y = 0 then NaN else signed_zero (0 < y))"
| "fdiv NZero NZero = NaN"
| "fdiv NaN _ = NaN"
| "fdiv _ NaN = NaN"
| "fdiv (Fin x) PInf = signed_zero (x < 0)"
| "fdiv (Fin x) NInf = signed_zero (0 \<le> x)"
| "fdiv NZero PInf = NZero"
| "fdiv NZero NInf = Fin 0"
| "fdiv PInf (Fin y) = (if 0 \<le> y then PInf else NInf)"
| "fdiv PInf NZero = NInf"
| "fdiv NInf (Fin y) = (if 0 \<le> y then NInf else PInf)"
| "fdiv NInf NZero = PInf"
| "fdiv PInf _ = NaN"
| "fdiv NInf _ = NaN"

text \<open>
  Comparisons: every comparison with \<open>NaN\<close> is false, and the two zeros compare equal.
\<close>

fun flt :: "fl \<Rightarrow> fl \<Rightarrow> bool" where
  "flt (Fin x) (Fin y) = (x < y)"
| "flt (Fin x) NZero = (x < 0)"
| "flt NZero (Fin y) = (0 < y)"
| "flt NZero NZero = False"
| "flt NaN _ = False"
| "flt _ NaN = False"
| "flt _ NInf = False"
| "flt PInf _ = False"
| "flt NInf _ = True"
| "flt _ PInf = True"

fun feq :: "fl \<Rightarrow> fl \<Rightarrow> bool" where
  "feq NaN _ = False"
| "feq _ NaN = False"
| "feq (Fin x) NZero = (x = 0)"
| "feq NZero (Fin y) = (y = 0)"
| "feq a b = (a = b)"

definition fgt :: "fl \<Rightarrow> fl \<Rightarrow> bool" where
  "fgt a b = flt b a"

definition fle :: "fl \<Rightarrow> fl \<Rightarrow> bool" where
  "fle a b = (flt a b \<or> feq a b)"

definition fge :: "fl \<Rightarrow> fl \<Rightarrow> bool" where
  "fge a b = fle b a"

text \<open>\<open>np.sqrt\<close>, \<open>np.log\<close> and \<open>np.exp\<close>.\<close>

fun fsqrt :: "fl \<Rightarrow> fl" where
  "fsqrt (Fin x) = (if x < 0 then NaN else Fin (sqrt x))"
| "fsqrt NZero = NZero"
| "fsqrt PInf = PInf"
| "fsqrt NInf = NaN"
| "fsqrt NaN = NaN"

fun flog :: "fl \<Rightarrow> fl" where
  "flog (Fin x) = (if x < 0 then NaN else if x = 0 then NInf else Fin (ln x))"
| "flog NZero = NInf"
| "flog PInf = PInf"
| "flog NInf = NaN"
| "flog NaN = NaN"

fun fexp :: "fl \<Rightarrow> fl" where
  "fexp (Fin x) = Fin (exp x)"
| "fexp NZero = Fin 1"
| "fexp PInf = PInf"
| "fexp NInf = Fin 0"
| "fexp NaN = NaN"

text \<open>Python's built-in \<open>max(a, b)\<close> keeps its first argument unless the second is greater.\<close>

definition py_max :: "fl \<Rightarrow> fl \<Rightarrow> fl" where
  "py_max a b = (if fgt b a then b else a)"

text \<open>\<open>np.finfo(np.float).max\<close>, the largest finite double.\<close>

definition float_max :: real where
  "float_max = (2 - 1 / 2 ^ 52) * 2 ^ 1023"

section \<open>The standard normal distribution\<close>

text \<open>
  \<open>scipy.stats.norm\<close> is a library outside the repository. Its functions are modelled by
  what they compute: the density \<open>exp (- x\<^sup>2 / 2) / sqrt (2 pi)\<close> and the distribution function,
  the primitive of the density that vanishes at minus infinity. The primitive is written
  as a power series (integrating the exponential series term by term); its infimum is its
  limit at minus infinity, since it is increasing.
\<close>

definition norm_pdf_real :: "real \<Rightarrow> real" where
  "norm_pdf_real x = exp (- (x\<^sup>2) / 2) / sqrt (2 * pi)"

definition ndtr_coeff :: "nat \<Rightarrow> real" where
  "ndtr_coeff k = (- 1) ^ k / (2 ^ k * fact k * real (2 * k + 1))"

definition ndtr_series :: "real \<Rightarrow> real" where
  "ndtr_series y = (\<Sum>k. ndtr_coeff k * y ^ k)"

definition ndtr_prim :: "real \<Rightarrow> real" where
  "ndtr_prim x = x * ndtr_series (x\<^sup>2) / sqrt (2 * pi)"

definition ndtr :: "real \<Rightarrow> real" where
  "ndtr x = ndtr_prim x - Inf (range ndtr_prim)"

text \<open>The library's values at the infinities and at \<open>NaN\<close>.\<close>

fun norm_pdf :: "fl \<Rightarrow> fl" where
  "norm_pdf (Fin x) = Fin (norm_pdf_real x)"
| "norm_pdf NZero = Fin (norm_pdf_real 0)"
| "norm_pdf PInf = Fin 0"
| "norm_pdf NInf = Fin 0"
| "norm_pdf NaN = NaN"

fun norm_logpdf :: "fl \<Rightarrow> fl" where
  "norm_logpdf (Fin x) = Fin (- (x\<^sup>2) / 2 - ln (sqrt (2 * pi)))"
| "norm_logpdf NZero = Fin (- ln (sqrt (2 * pi)))"
| "norm_logpdf PInf = NInf"
| "norm_logpdf NInf = NInf"
| "norm_logpdf NaN = NaN"

fun norm_cdf :: "fl \<Rightarrow> fl" where
  "norm_cdf (Fin x) = Fin (ndtr x)"
| "norm_cdf NZero = Fin (ndtr 0)"
| "norm_cdf PInf = Fin 1"
| "norm_cdf NInf = Fin 0"
| "norm_cdf NaN = NaN"

fun norm_logcdf :: "fl \<Rightarrow> fl" where
  "norm_logcdf (Fin x) = Fin (ln (ndtr x))"
| "norm_logcdf NZero = Fin (ln (ndtr 0))"
| "norm_logcdf PInf = Fin 0"
| "norm_logcdf NInf = NInf"
| "norm_logcdf NaN = NaN"

section \<open>The model collaborator and the evaluators' configuration\<close>

text \<open>
  A batch \<open>X\<close> is a list of rows. \<open>predict\<close> returns a mean and a variance array of one
  common shape with one entry per candidate: either one-dimensional, shape \<open>(k,)\<close>, or a
  column, shape \<open>(k, 1)\<close>. Entry \<open>i\<close> of the list is the pair \<open>(m[i], v[i])\<close>.
  \<open>predictive_gradients\<close> returns, for each row, the pairs \<open>(dm/dx\<^sub>j, dv/dx\<^sub>j)\<close>.
\<close>

type_synonym batch = "real list list"

datatype prediction = Flat "(fl \<times> fl) list" | Column "(fl \<times> fl) list"

fun cells :: "prediction \<Rightarrow> (fl \<times> fl) list" where
  "cells (Flat c) = c"
| "cells (Column c) = c"

record surrogate =
  predict :: "batch \<Rightarrow> batch option \<Rightarrow> prediction"
  getCurrentBest :: fl
  predictive_gradients :: "batch \<Rightarrow> (fl \<times> fl) list list"

text \<open>The calls made on the model, in order.\<close>

datatype call = Predict batch "batch option" | GetCurrentBest | PredictiveGradients batch

record acquisition =
  model :: surrogate
  par :: real
  X_lower :: "real list"
  X_upper :: "real list"

datatype error = NO_DERIVATIVE | SINGLE_INPUT_ONLY | UnboundLocalError | IndexError | ValueError

text \<open>
  \<open>np.any(X < self.X_lower)\<close> and \<open>np.any(X > self.X_upper)\<close>, row by row against the bound.
  Rows and bounds have the same number \<open>n\<close> of coordinates (the invariant of the data model);
  the comparison pairs coordinate \<open>j\<close> of a row with coordinate \<open>j\<close> of the bound.
\<close>

definition np_any_lt :: "batch \<Rightarrow> real list \<Rightarrow> bool" where
  "np_any_lt X bound = list_ex (\<lambda>row. list_ex (\<lambda>(x, l). x < l) (zip row bound)) X"

definition np_any_gt :: "batch \<Rightarrow> real list \<Rightarrow> bool" where
  "np_any_gt X bound = list_ex (\<lambda>row. list_ex (\<lambda>(x, u). x > u) (zip row bound)) X"

section \<open>LogEI\<close>

text \<open>The body of the loop of \<open>LogEI.__call__\<close>: the value stored in \<open>log_ei[i]\<close>.\<close>

definition log_ei_entry :: "real \<Rightarrow> fl \<Rightarrow> fl \<Rightarrow> fl \<Rightarrow> fl \<Rightarrow> fl" where
  "log_ei_entry p eta mu sigma z_i =
     (let par_s = fmul (Fin p) sigma in
      if feq (fabs (fsub (fsub eta mu) par_s)) (Fin 0) then
        (if fgt sigma (Fin 0) then fadd (flog sigma) (norm_logpdf z_i) else fneg PInf)
      else if feq sigma (Fin 0) then
        (if flt mu (fsub eta par_s) then flog (fsub (fsub eta mu) par_s) else fneg PInf)
      else
        (let b = fadd (flog sigma) (norm_logpdf z_i) in
         if fgt (fsub eta par_s) mu then
           (let a = fadd (flog (fsub (fsub eta mu) par_s)) (norm_logcdf z_i) in
            fadd (py_max a b) (flog (fadd (Fin 1) (fexp (fneg (fabs (fsub b a)))))))
         else
           (let a = fadd (flog (fadd (fsub mu eta) par_s)) (norm_logcdf z_i) in
            if fge a b then fneg PInf
            else fadd b (flog (fsub (Fin 1) (fexp (fsub a b)))))))"

definition LogEI_call ::
  "acquisition \<Rightarrow> batch \<Rightarrow> batch option \<Rightarrow> bool \<Rightarrow> call list \<Rightarrow> (error + fl list list) \<times> call list" where
  "LogEI_call self X Z derivative tr =
     (if derivative then (Inl NO_DERIVATIVE, tr)
      else if np_any_lt X (X_lower self) \<or> np_any_gt X (X_upper self) then
        (Inr [[fneg (Fin float_max)]], tr)
      else
        (let mv = predict (model self) X Z;
             tr1 = tr @ [Predict X Z];
             eta = getCurrentBest (model self);
             tr2 = tr1 @ [GetCurrentBest];
             m = map fst (cells mv);
             s = map (\<lambda>c. fsqrt (snd c)) (cells mv);
             z = map2 (\<lambda>m_i s_i. fsub (fdiv (fsub eta m_i) s_i) (Fin (par self))) m s;
             log_ei = foldl (\<lambda>log_ei i. log_ei[i := log_ei_entry (par self) eta (m ! i) (s ! i) (z ! i)])
                        (replicate (length m) (Fin 0)) [0..<length m]
         in (Inr (map (\<lambda>x. [x]) log_ei), tr2)))"

section \<open>PI\<close>

datatype pi_result = Score "fl list list" | ScoreGrad "fl list list" "fl list list list"

definition ncols :: "batch \<Rightarrow> nat" where
  "ncols X = (case X of [] \<Rightarrow> 0 | row # _ \<Rightarrow> length row)"

text \<open>numpy broadcasts two axes when their lengths agree or one of them is 1.\<close>

definition broadcastable :: "nat \<Rightarrow> nat \<Rightarrow> bool" where
  "broadcastable a b = (a = b \<or> a = 1 \<or> b = 1)"

text \<open>One entry of \<open>df\<close>: \<open>-(-norm.pdf(z) / s) * (dmdx + dsdx * z)\<close> with \<open>dsdx = ds2dx / (2 * s)\<close>.\<close>

definition df_entry :: "fl \<Rightarrow> fl \<Rightarrow> fl \<times> fl \<Rightarrow> fl" where
  "df_entry z_i s_i g =
     fmul (fneg (fdiv (fneg (norm_pdf z_i)) s_i))
          (fadd (fst g) (fmul (fdiv (snd g) (fmul (Fin 2) s_i)) z_i))"

definition PI_call ::
  "acquisition \<Rightarrow> batch \<Rightarrow> batch option \<Rightarrow> bool \<Rightarrow> call list \<Rightarrow> (error + pi_result) \<times> call list" where
  "PI_call self X Z derivative tr =
     (if length X > 1 then (Inl SINGLE_INPUT_ONLY, tr)
      else if np_any_lt X (X_lower self) \<or> np_any_gt X (X_upper self) then
        (if derivative then (Inr (ScoreGrad [[Fin 0]] [[replicate (ncols X) (Fin 0)]]), tr)
         else (Inr (Score [[Fin 0]]), tr))
      else
        (let mv = predict (model self) X Z;
             tr1 = tr @ [Predict X Z];
             eta = getCurrentBest (model self);
             tr2 = tr1 @ [GetCurrentBest];
             m = map fst (cells mv);
             s = map (\<lambda>c. fsqrt (snd c)) (cells mv);
             z = map2 (\<lambda>m_i s_i. fdiv (fsub (fsub eta m_i) (Fin (par self))) s_i) m s;
             f = map norm_cdf z
         in if derivative then
              (let tr3 = tr2 @ [PredictiveGradients X] in
               case predictive_gradients (model self) X of
                 [] \<Rightarrow> (Inl IndexError, tr3)
               | g # _ \<Rightarrow>
                  (case mv of
                     Flat _ \<Rightarrow>
                       (Inr (ScoreGrad [f] [map2 (\<lambda>z_i s_i. map (df_entry z_i s_i) g) z s]), tr3)
                   | Column c \<Rightarrow>
                       (if broadcastable (length g) (length c) then (Inl UnboundLocalError, tr3)
                        else (Inl ValueError, tr3))))
            else
              (case mv of
                 Flat _ \<Rightarrow> (Inr (Score [f]), tr2)
               | Column _ \<Rightarrow> (Inl UnboundLocalError, tr2))))"

section \<open>Auxiliary notions for the proofs\<close>

text \<open>
  A constant bounding the density by an exponential, and the expected improvement of a
  standardised candidate, \<open>z \<Phi>(z) + \<phi>(z)\<close>.
\<close>

definition tail_const :: real where
  "tail_const = exp (1 / 2) / sqrt (2 * pi)"


text \<open>
  The entry \<open>LogEI.__call__\<close> stores and the score \<open>PI.__call__\<close> computes for one candidate
  whose prediction is the pair \<open>(m[i], v[i])\<close>: the vectorised \<open>s\<close> and \<open>z\<close> of the source, read
  at one index.
\<close>

definition log_ei_of :: "real \<Rightarrow> fl \<Rightarrow> fl \<times> fl \<Rightarrow> fl" where
  "log_ei_of p eta c =
     log_ei_entry p eta (fst c) (fsqrt (snd c))
       (fsub (fdiv (fsub eta (fst c)) (fsqrt (snd c))) (Fin p))"

definition pi_of :: "real \<Rightarrow> fl \<Rightarrow> fl \<times> fl \<Rightarrow> fl" where
  "pi_of p eta c = norm_cdf (fdiv (fsub (fsub eta (fst c)) (Fin p)) (fsqrt (snd c)))"

section \<open>Example configurations\<close>

text \<open>
  A model that answers every query with the same prediction and incumbent, and an
  evaluator over the search interval \<open>[0, 1]\<close>. They instantiate the theorems below.
\<close>

definition fixed_model :: "prediction \<Rightarrow> fl \<Rightarrow> surrogate" where
  "fixed_model pr eta =
     \<lparr>predict = (\<lambda>X Z. pr), getCurrentBest = eta,
      predictive_gradients = (\<lambda>X. map (map (\<lambda>x. (Fin 0, Fin 0))) X)\<rparr>"

definition unit_interval :: "surrogate \<Rightarrow> real \<Rightarrow> acquisition" where
  "unit_interval mdl p = \<lparr>model = mdl, par = p, X_lower = [0], X_upper = [1]\<rparr>"

section \<open>Properties of the normal distribution function\<close>

lemma ndtr_coeff_summable: "summable (\<lambda>k. ndtr_coeff k * y ^ k)"
proof (rule summable_comparison_test')
  show "summable (\<lambda>k. norm ((y / 2) ^ k /\<^sub>R fact k))"
    by (rule summable_norm_exp)
  fix k :: nat
  have "norm (ndtr_coeff k * y ^ k) = \<bar>y\<bar> ^ k / (2 ^ k * fact k * real (2 * k + 1))"
    by (simp add: ndtr_coeff_def abs_mult power_abs)
  also have "\<dots> \<le> \<bar>y\<bar> ^ k / (2 ^ k * fact k)"
  proof (rule divide_left_mono)
    have "(2::real) ^ k * fact k * 1 \<le> 2 ^ k * fact k * real (2 * k + 1)"
      by (intro mult_left_mono) simp_all
    then show "(2::real) ^ k * fact k \<le> 2 ^ k * fact k * real (2 * k + 1)" by simp
  qed simp_all
  also have "\<dots> = norm ((y / 2) ^ k /\<^sub>R fact k)"
    by (simp add: power_divide power_abs divide_simps)
  finally show "norm (ndtr_coeff k * y ^ k) \<le> norm ((y / 2) ^ k /\<^sub>R fact k)" .
qed

lemma ndtr_series_deriv:
  "(ndtr_series has_real_derivative (\<Sum>k. diffs ndtr_coeff k * y ^ k)) (at y)"
  unfolding ndtr_series_def
  by (rule termdiffs_strong_converges_everywhere) (rule ndtr_coeff_summable)


lemma ndtr_series_ode:
  "ndtr_series y + 2 * y * (\<Sum>k. diffs ndtr_coeff k * y ^ k) = exp (- y / 2)"
proof -
  let ?D = "\<Sum>k. diffs ndtr_coeff k * y ^ k"
  have "summable (\<lambda>k. diffs ndtr_coeff k * y ^ k)"
    by (rule termdiff_converges_all) (rule ndtr_coeff_summable)
  then have "(\<lambda>k. real k * ndtr_coeff k * y ^ (k - Suc 0)) sums ?D"
    by (rule diffs_equiv)
  then have "(\<lambda>k. (2 * y) * (real k * ndtr_coeff k * y ^ (k - Suc 0))) sums (2 * y * ?D)"
    by (rule sums_mult)
  moreover have "(2 * y) * (real k * ndtr_coeff k * y ^ (k - Suc 0))
      = 2 * real k * ndtr_coeff k * y ^ k" for k
    by (cases k) simp_all
  ultimately have d: "(\<lambda>k. 2 * real k * ndtr_coeff k * y ^ k) sums (2 * y * ?D)"
    by simp
  have s: "(\<lambda>k. ndtr_coeff k * y ^ k) sums ndtr_series y"
    unfolding ndtr_series_def by (rule summable_sums) (rule ndtr_coeff_summable)
  have "(\<lambda>k. ndtr_coeff k * y ^ k + 2 * real k * ndtr_coeff k * y ^ k)
      sums (ndtr_series y + 2 * y * ?D)"
    by (rule sums_add [OF s d])
  moreover have "ndtr_coeff k * y ^ k + 2 * real k * ndtr_coeff k * y ^ k
      = (- y / 2) ^ k /\<^sub>R fact k" for k
  proof -
    have "ndtr_coeff k * y ^ k + 2 * real k * ndtr_coeff k * y ^ k
        = (real (2 * k + 1) * ndtr_coeff k) * y ^ k"
      by (simp add: algebra_simps)
    also have "real (2 * k + 1) * ndtr_coeff k = (- 1) ^ k / (2 ^ k * fact k)"
      unfolding ndtr_coeff_def by simp
    also have "(- 1) ^ k / (2 ^ k * fact k) * y ^ k = (- y / 2) ^ k /\<^sub>R fact k"
    proof -
      have "- y / 2 = (- 1) * (y / 2)" by simp
      then have "(- y / 2) ^ k = (- 1) ^ k * (y / 2) ^ k"
        by (simp only: power_mult_distrib)
      then have "(- y / 2) ^ k = (- 1) ^ k * y ^ k / 2 ^ k"
        by (simp add: power_divide)
      then show ?thesis by (simp add: divide_simps)
    qed
    finally show ?thesis .
  qed
  ultimately have "(\<lambda>k. (- y / 2) ^ k /\<^sub>R fact k) sums (ndtr_series y + 2 * y * ?D)"
    by simp
  then show ?thesis
    using exp_converges [of "- y / 2"] by (rule sums_unique2)
qed

lemma ndtr_prim_deriv: "(ndtr_prim has_real_derivative norm_pdf_real x) (at x)"
proof -
  let ?D = "\<lambda>y. \<Sum>k. diffs ndtr_coeff k * y ^ k"
  have "((\<lambda>x. ndtr_series (x\<^sup>2)) has_real_derivative ?D (x\<^sup>2) * (2 * x)) (at x)"
    by (rule DERIV_chain' [OF _ ndtr_series_deriv]) (auto intro!: derivative_eq_intros)
  then have "((\<lambda>x. x * ndtr_series (x\<^sup>2)) has_real_derivative
      (1 * ndtr_series (x\<^sup>2) + x * (?D (x\<^sup>2) * (2 * x)))) (at x)"
    by (auto intro!: derivative_eq_intros)
  then have "((\<lambda>x. x * ndtr_series (x\<^sup>2) / sqrt (2 * pi)) has_real_derivative
      (1 * ndtr_series (x\<^sup>2) + x * (?D (x\<^sup>2) * (2 * x))) / sqrt (2 * pi)) (at x)"
    by (rule DERIV_cdivide)
  moreover have "1 * ndtr_series (x\<^sup>2) + x * (?D (x\<^sup>2) * (2 * x)) = exp (- (x\<^sup>2) / 2)"
    using ndtr_series_ode [of "x\<^sup>2"] by (simp add: power2_eq_square algebra_simps)
  ultimately show ?thesis
    unfolding norm_pdf_real_def ndtr_prim_def [abs_def] by simp
qed

lemma norm_pdf_real_pos: "0 < norm_pdf_real x"
  by (simp add: norm_pdf_real_def)

lemma ndtr_prim_strict_mono: "a < b \<Longrightarrow> ndtr_prim a < ndtr_prim b"
  by (rule DERIV_pos_imp_increasing) (blast intro: ndtr_prim_deriv norm_pdf_real_pos)+

lemma tail_const_pos: "0 < tail_const"
  by (simp add: tail_const_def)

lemma norm_pdf_real_le_exp: "norm_pdf_real x \<le> tail_const * exp x"
proof -
  have "0 \<le> (x + 1)\<^sup>2" by simp
  then have "- (x\<^sup>2) / 2 \<le> 1 / 2 + x"
    by (simp add: power2_eq_square algebra_simps)
  then have "exp (- (x\<^sup>2) / 2) \<le> exp (1 / 2) * exp x"
    by (simp add: exp_add [symmetric])
  then have "exp (- (x\<^sup>2) / 2) / sqrt (2 * pi) \<le> exp (1 / 2) * exp x / sqrt (2 * pi)"
    by (rule divide_right_mono) simp
  then show ?thesis by (simp add: norm_pdf_real_def tail_const_def)
qed

lemma ndtr_prim_tail:
  assumes "a \<le> b"
  shows "ndtr_prim b - ndtr_prim a \<le> tail_const * exp b - tail_const * exp a"
proof -
  have "ndtr_prim b - tail_const * exp b \<le> ndtr_prim a - tail_const * exp a"
  proof (rule DERIV_nonpos_imp_nonincreasing [OF assms])
    fix x :: real
    have "((\<lambda>x. ndtr_prim x - tail_const * exp x) has_real_derivative
        norm_pdf_real x - tail_const * exp x) (at x)"
      by (auto intro!: derivative_eq_intros ndtr_prim_deriv)
    moreover have "norm_pdf_real x - tail_const * exp x \<le> 0"
      using norm_pdf_real_le_exp [of x] by simp
    ultimately show "\<exists>y. ((\<lambda>x. ndtr_prim x - tail_const * exp x) has_real_derivative y) (at x)
        \<and> y \<le> 0"
      by blast
  qed
  then show ?thesis by simp
qed

lemma ndtr_prim_lower: "ndtr_prim 0 - tail_const \<le> ndtr_prim a"
proof (cases "a \<le> 0")
  case True
  from ndtr_prim_tail [OF True] have "ndtr_prim 0 - ndtr_prim a \<le> tail_const - tail_const * exp a"
    by simp
  moreover have "0 \<le> tail_const * exp a"
    using tail_const_pos by simp
  ultimately show ?thesis by simp
next
  case False
  then have "ndtr_prim 0 < ndtr_prim a"
    by (intro ndtr_prim_strict_mono) simp
  with tail_const_pos show ?thesis by simp
qed

lemma ndtr_prim_bdd_below: "bdd_below (range ndtr_prim)"
  unfolding bdd_below_def using ndtr_prim_lower by blast

lemma ndtr_pos: "0 < ndtr x"
proof -
  have "Inf (range ndtr_prim) \<le> ndtr_prim (x - 1)"
    by (rule cInf_lower [OF _ ndtr_prim_bdd_below]) simp
  also have "\<dots> < ndtr_prim x"
    by (rule ndtr_prim_strict_mono) simp
  finally show ?thesis by (simp add: ndtr_def)
qed

lemma ndtr_le_exp: "ndtr x \<le> tail_const * exp x"
proof (rule ccontr)
  assume "\<not> ndtr x \<le> tail_const * exp x"
  then have "Inf (range ndtr_prim) < ndtr_prim x - tail_const * exp x"
    by (simp add: ndtr_def)
  then obtain a where a: "ndtr_prim a < ndtr_prim x - tail_const * exp x"
    using cInf_less_iff [OF _ ndtr_prim_bdd_below] by auto
  have pos: "0 < tail_const * exp x" "0 \<le> tail_const * exp a"
    using tail_const_pos by simp_all
  show False
  proof (cases "a \<le> x")
    case True
    from ndtr_prim_tail [OF True] a pos show False by simp
  next
    case False
    then have "ndtr_prim x < ndtr_prim a"
      by (intro ndtr_prim_strict_mono) simp
    with a pos show False by simp
  qed
qed

lemma ndtr_at_bot: "(ndtr \<longlongrightarrow> 0) at_bot"
proof (rule tendsto_sandwich)
  show "\<forall>\<^sub>F x in at_bot. 0 \<le> ndtr x"
    using ndtr_pos by (simp add: less_imp_le)
  show "\<forall>\<^sub>F x in at_bot. ndtr x \<le> tail_const * exp x"
    using ndtr_le_exp by simp
  show "((\<lambda>x. 0 :: real) \<longlongrightarrow> 0) at_bot"
    by simp
  have "((\<lambda>x. tail_const * exp x) \<longlongrightarrow> tail_const * 0) at_bot"
    by (intro tendsto_mult tendsto_const exp_at_bot)
  then show "((\<lambda>x. tail_const * exp x) \<longlongrightarrow> 0) at_bot"
    by simp
qed










section \<open>The evaluators, branch by branch\<close>

lemma fsub_Fin: "fsub (Fin x) (Fin y) = Fin (x - y)"
  by (simp add: fsub_def)



lemma fadd_signed_zero: "fadd (Fin x) (signed_zero b) = Fin x"
  by (simp add: signed_zero_def)

lemma fsub_signed_zero: "fsub (Fin x) (signed_zero b) = Fin x"
  by (simp add: signed_zero_def fsub_def)

lemma float_max_pos: "0 < float_max"
  by (simp add: float_max_def)

lemma fill_loop:
  "k \<le> length acc \<Longrightarrow>
   foldl (\<lambda>acc i. acc[i := f i]) acc [0..<k] = map f [0..<k] @ drop k acc"
proof (induction k)
  case 0
  then show ?case by simp
next
  case (Suc k)
  then have k: "k < length acc" by simp
  have "foldl (\<lambda>acc i. acc[i := f i]) acc [0..<Suc k]
      = (map f [0..<k] @ drop k acc)[k := f k]"
    using Suc by simp
  also have "\<dots> = map f [0..<k] @ (drop k acc)[0 := f k]"
    by (simp add: list_update_append)
  also have "(drop k acc)[0 := f k] = f k # drop (Suc k) acc"
    using k by (simp add: Cons_nth_drop_Suc [symmetric])
  finally show ?case by simp
qed

lemma fill_loop_all:
  "foldl (\<lambda>acc i. acc[i := f i]) (replicate n a) [0..<n] = map f [0..<n]"
  using fill_loop [of n "replicate n a" f] by simp

lemma LogEI_call_in_bounds:
  assumes "\<not> np_any_lt X (X_lower self)" "\<not> np_any_gt X (X_upper self)"
  shows "LogEI_call self X Z False tr =
    (Inr (map (\<lambda>c. [log_ei_of (par self) (getCurrentBest (model self)) c])
            (cells (predict (model self) X Z))),
     tr @ [Predict X Z, GetCurrentBest])"
proof -
  define cs where "cs = cells (predict (model self) X Z)"
  define eta where "eta = getCurrentBest (model self)"
  define m where "m = map fst cs"
  define s where "s = map (\<lambda>c. fsqrt (snd c)) cs"
  define z where "z = map2 (\<lambda>m_i s_i. fsub (fdiv (fsub eta m_i) s_i) (Fin (par self))) m s"
  have "map (\<lambda>i. log_ei_entry (par self) eta (m ! i) (s ! i) (z ! i)) [0..<length m]
      = map (log_ei_of (par self) eta) cs"
    by (rule nth_equalityI) (simp_all add: m_def s_def z_def log_ei_of_def)
  then have "foldl (\<lambda>log_ei i. log_ei[i := log_ei_entry (par self) eta (m ! i) (s ! i) (z ! i)])
      (replicate (length m) (Fin 0)) [0..<length m] = map (log_ei_of (par self) eta) cs"
    by (simp only: fill_loop_all)
  then show ?thesis
    using assms
    by (simp add: LogEI_call_def Let_def cs_def eta_def m_def s_def z_def comp_def)
qed












lemma log_ei_of_zero_var:
  "log_ei_of p (Fin e) (Fin m, Fin 0) = (if m < e then Fin (ln (e - m)) else NInf)"
  by (simp add: log_ei_of_def log_ei_entry_def Let_def fsub_Fin fsub_signed_zero fgt_def)



lemma pi_of_zero_var:
  "pi_of p (Fin e) (Fin m, Fin 0)
    = (if e - m - p = 0 then NaN else if 0 < e - m - p then Fin 1 else Fin 0)"
  by (simp add: pi_of_def fsub_Fin inf_of_sign_def)


lemma pi_scores:
  "map norm_cdf (map2 (\<lambda>m_i s_i. fdiv (fsub (fsub eta m_i) (Fin p)) s_i)
      (map fst cs) (map (\<lambda>c. fsqrt (snd c)) cs)) = map (pi_of p eta) cs"
  by (rule nth_equalityI) (simp_all add: pi_of_def)

lemma PI_call_in_bounds:
  assumes "length X \<le> 1" "\<not> np_any_lt X (X_lower self)" "\<not> np_any_gt X (X_upper self)"
    and "predict (model self) X Z = Flat cs"
  shows "PI_call self X Z False tr =
    (Inr (Score [map (pi_of (par self) (getCurrentBest (model self))) cs]),
     tr @ [Predict X Z, GetCurrentBest])"
  using assms by (simp add: PI_call_def Let_def pi_scores del: map_map)

lemma out_of_bounds_coordinate:
  assumes "row \<in> set X" "j < length row" "j < length lower" "j < length upper"
    and "row ! j < lower ! j \<or> row ! j > upper ! j"
  shows "np_any_lt X lower \<or> np_any_gt X upper"
proof -
  have "(row ! j, lower ! j) \<in> set (zip row lower)" "(row ! j, upper ! j) \<in> set (zip row upper)"
    using assms(2-4) by (auto simp: set_zip)
  then have "list_ex (\<lambda>(x, l). x < l) (zip row lower) \<or> list_ex (\<lambda>(x, u). x > u) (zip row upper)"
    using assms(5) unfolding list_ex_iff by fastforce
  then show ?thesis
    using assms(1) unfolding np_any_lt_def np_any_gt_def list_ex_iff by blast
qed

lemma LogEI_call_out_of_bounds:
  "np_any_lt X (X_lower self) \<or> np_any_gt X (X_upper self) \<Longrightarrow>
   LogEI_call self X Z False tr = (Inr [[Fin (- float_max)]], tr)"
  using float_max_pos by (simp add: LogEI_call_def)

lemma PI_call_out_of_bounds:
  assumes "length X \<le> 1" "np_any_lt X (X_lower self) \<or> np_any_gt X (X_upper self)"
  shows "PI_call self X Z derivative tr =
    (if derivative then (Inr (ScoreGrad [[Fin 0]] [[replicate (ncols X) (Fin 0)]]), tr)
     else (Inr (Score [[Fin 0]]), tr))"
  using assms by (simp add: PI_call_def)

lemma unit_interval_simps:
  "model (unit_interval mdl p) = mdl" "par (unit_interval mdl p) = p"
  "X_lower (unit_interval mdl p) = [0]" "X_upper (unit_interval mdl p) = [1]"
  by (simp_all add: unit_interval_def)

lemma fixed_model_simps:
  "predict (fixed_model pr eta) X Z = pr" "getCurrentBest (fixed_model pr eta) = eta"
  by (simp_all add: fixed_model_def)

lemma half_in_unit_interval:
  "\<not> np_any_lt [[1 / 2]] [0]" "\<not> np_any_gt [[1 / 2]] [1]"
  by (simp_all add: np_any_lt_def np_any_gt_def)


section \<open>Guards\<close>

text \<open>
  C3. Calling \<open>LogEI.__call__\<close> with \<open>derivative=True\<close> raises the \<open>NO_DERIVATIVE\<close> error for
  every batch, every \<open>Z\<close>, every model and every bounds, in or out of bounds; no model
  method has been called when it does (the trace of calls is unchanged).
\<close>

theorem LogEI_derivative_guard:
  "LogEI_call self X Z True tr = (Inl NO_DERIVATIVE, tr)"
  by (simp add: LogEI_call_def)

text \<open>
  C4. For every batch with more than one row \<open>PI.__call__\<close> raises the \<open>SINGLE_INPUT_ONLY\<close>
  error, whether or not the rows are in bounds and whether or not the derivative is
  requested, and no model method has been called.
\<close>

theorem PI_batch_size_guard:
  "1 < length X \<Longrightarrow> PI_call self X Z derivative tr = (Inl SINGLE_INPUT_ONLY, tr)"
  by (simp add: PI_call_def)

theorem PI_batch_size_guard_witness:
  "1 < length [[1 / 2], [2 :: real]] \<and>
   PI_call (unit_interval (fixed_model (Flat [(Fin 0, Fin 1)]) (Fin 0)) (1 / 10))
     [[1 / 2], [2]] None True [] = (Inl SINGLE_INPUT_ONLY, [])"
  using PI_batch_size_guard [of "[[1 / 2], [2]]"
      "unit_interval (fixed_model (Flat [(Fin 0, Fin 1)]) (Fin 0)) (1 / 10)" None True "[]"]
  by simp

section \<open>The shape of the result for a rejected batch\<close>

text \<open>
  C9. For a batch of any size in which a coordinate of some row lies strictly outside the
  bounds, \<open>LogEI.__call__\<close> returns a 1-by-1 array holding the sentinel (minus the largest
  finite double); for a batch of more than one row this is not a result with one entry per
  row.
\<close>

theorem LogEI_out_of_bounds_shape:
  assumes "row \<in> set X" "j < length row" "j < length (X_lower self)" "j < length (X_upper self)"
    and "row ! j < X_lower self ! j \<or> row ! j > X_upper self ! j"
  shows "\<exists>rows. fst (LogEI_call self X Z False tr) = Inr rows \<and> rows = [[Fin (- float_max)]]
    \<and> length rows = 1 \<and> (1 < length X \<longrightarrow> length rows \<noteq> length X)"
  using LogEI_call_out_of_bounds [OF out_of_bounds_coordinate [OF assms]] by simp

theorem LogEI_out_of_bounds_shape_witness:
  "[2] \<in> set [[1 / 2], [2], [1 / 4 :: real]] \<and> (0 :: nat) < length [2 :: real] \<and>
   [2 :: real] ! 0 > [1] ! 0 \<and> 1 < length [[1 / 2], [2], [1 / 4 :: real]] \<and>
   (\<exists>rows. fst (LogEI_call (unit_interval (fixed_model (Flat []) (Fin 0)) (1 / 100))
        [[1 / 2], [2], [1 / 4]] None False []) = Inr rows \<and> rows = [[Fin (- float_max)]]
      \<and> length rows = 1 \<and> length rows \<noteq> length [[1 / 2], [2], [1 / 4 :: real]])"
  using LogEI_out_of_bounds_shape [of "[2]" "[[1 / 2], [2], [1 / 4]]" 0
      "unit_interval (fixed_model (Flat []) (Fin 0)) (1 / 100)" None "[]"]
  by (simp add: unit_interval_simps)

section \<open>The logarithm of the expected improvement at zero variance\<close>

text \<open>
  C5. For an in-bounds call and a candidate \<open>i\<close> with predicted variance zero (so \<open>sigma = 0\<close>)
  and a coefficient \<open>e - m[i] - par * sigma\<close> different from zero, entry \<open>i\<close> of the result
  of \<open>LogEI.__call__\<close> is the logarithm of the coefficient when the coefficient is positive,
  and minus infinity when it is not.
\<close>

theorem LogEI_zero_variance:
  assumes "\<not> np_any_lt X (X_lower self)" "\<not> np_any_gt X (X_upper self)"
    and "i < length (cells (predict (model self) X Z))"
    and "cells (predict (model self) X Z) ! i = (Fin m, Fin 0)"
    and "getCurrentBest (model self) = Fin e"
    and "e - m - par self * sqrt 0 \<noteq> 0"
  shows "\<exists>rows. fst (LogEI_call self X Z False tr) = Inr rows \<and>
    length rows = length (cells (predict (model self) X Z)) \<and>
    rows ! i = [if 0 < e - m - par self * sqrt 0 then Fin (ln (e - m - par self * sqrt 0))
                else NInf]"
  using assms(3-6)
  by (simp add: LogEI_call_in_bounds [OF assms(1,2)] log_ei_of_zero_var)

theorem LogEI_zero_variance_witness:
  "\<not> np_any_lt [[1 / 2], [1 / 4]] [0] \<and> \<not> np_any_gt [[1 / 2], [1 / 4]] [1] \<and>
   (1 :: nat) < length [(Fin 5, Fin 0), (Fin (- 5), Fin 0)] \<and>
   (0 :: real) - (- 5) - 1 / 100 * sqrt 0 \<noteq> 0 \<and>
   (\<exists>rows. fst (LogEI_call
        (unit_interval (fixed_model (Column [(Fin 5, Fin 0), (Fin (- 5), Fin 0)]) (Fin 0)) (1 / 100))
        [[1 / 2], [1 / 4]] None False []) = Inr rows \<and>
      length rows = length [(Fin 5, Fin 0), (Fin (- 5), Fin 0)] \<and>
      rows ! 1 = [if 0 < (0 :: real) - (- 5) - 1 / 100 * sqrt 0
                  then Fin (ln (0 - (- 5) - 1 / 100 * sqrt 0)) else NInf])"
  using LogEI_zero_variance [of "[[1 / 2], [1 / 4]]"
      "unit_interval (fixed_model (Column [(Fin 5, Fin 0), (Fin (- 5), Fin 0)]) (Fin 0)) (1 / 100)"
      1 None "- 5" 0 "[]"]
  by (simp add: unit_interval_simps fixed_model_simps np_any_lt_def np_any_gt_def)


section \<open>Rejection of points outside the bounds\<close>

text \<open>
  C2, as amended. For a batch in which a coordinate of some row lies strictly below the lower
  or strictly above the upper bound, \<open>LogEI.__call__\<close> (derivative not requested) returns the
  1-by-1 array holding minus the largest finite double, and for a batch of exactly one row
  \<open>PI.__call__\<close> returns zero, together with a zero gradient when the derivative is requested;
  no model method is called in either case (the trace of calls is unchanged).
\<close>

theorem out_of_bounds_rejection:
  assumes "row \<in> set X" "j < length row" "j < length (X_lower self)" "j < length (X_upper self)"
    and "row ! j < X_lower self ! j \<or> row ! j > X_upper self ! j"
  shows "LogEI_call self X Z False tr = (Inr [[Fin (- float_max)]], tr) \<and>
    (length X = 1 \<longrightarrow>
       PI_call self X Z False tr = (Inr (Score [[Fin 0]]), tr) \<and>
       PI_call self X Z True tr = (Inr (ScoreGrad [[Fin 0]] [[replicate (length row) (Fin 0)]]), tr))"
proof -
  have oob: "np_any_lt X (X_lower self) \<or> np_any_gt X (X_upper self)"
    by (rule out_of_bounds_coordinate [OF assms])
  have "ncols X = length row" if "length X = 1"
  proof -
    from that obtain r where "X = [r]" by (cases X) auto
    with assms(1) show ?thesis by (simp add: ncols_def)
  qed
  then show ?thesis
    using LogEI_call_out_of_bounds [OF oob] PI_call_out_of_bounds [OF _ oob]
    by simp
qed

theorem out_of_bounds_rejection_witness:
  "[2, 1 / 2] \<in> set [[2, 1 / 2 :: real]] \<and> (0 :: nat) < length [2, 1 / 2 :: real] \<and>
   [2, 1 / 2 :: real] ! 0 > [1, 1] ! 0 \<and> length [[2, 1 / 2 :: real]] = 1 \<and>
   LogEI_call \<lparr>model = fixed_model (Flat [(Fin 0, Fin 1)]) (Fin 0), par = 1 / 100,
       X_lower = [0, 0], X_upper = [1, 1]\<rparr> [[2, 1 / 2]] None False []
     = (Inr [[Fin (- float_max)]], []) \<and>
   PI_call \<lparr>model = fixed_model (Flat [(Fin 0, Fin 1)]) (Fin 0), par = 1 / 100,
       X_lower = [0, 0], X_upper = [1, 1]\<rparr> [[2, 1 / 2]] None False []
     = (Inr (Score [[Fin 0]]), []) \<and>
   PI_call \<lparr>model = fixed_model (Flat [(Fin 0, Fin 1)]) (Fin 0), par = 1 / 100,
       X_lower = [0, 0], X_upper = [1, 1]\<rparr> [[2, 1 / 2]] None True []
     = (Inr (ScoreGrad [[Fin 0]] [[[Fin 0, Fin 0]]]), [])"
  using out_of_bounds_rejection [of "[2, 1 / 2]" "[[2, 1 / 2]]" 0
      "\<lparr>model = fixed_model (Flat [(Fin 0, Fin 1)]) (Fin 0), par = 1 / 100,
        X_lower = [0, 0], X_upper = [1, 1]\<rparr>" None "[]"]
  by (simp add: numeral_2_eq_2)

text \<open>
  As stated for every batch the claim fails: on a batch of two rows, one of them out of
  bounds, \<open>PI.__call__\<close> raises \<open>SINGLE_INPUT_ONLY\<close> and returns no zero.
\<close>

theorem out_of_bounds_rejection_counterexample:
  "np_any_gt [[2], [1 / 2]] (X_upper (unit_interval (fixed_model (Flat [(Fin 0, Fin 1)]) (Fin 0)) (1 / 10)))
   \<and> fst (PI_call (unit_interval (fixed_model (Flat [(Fin 0, Fin 1)]) (Fin 0)) (1 / 10))
        [[2], [1 / 2]] None False []) = Inl SINGLE_INPUT_ONLY
   \<and> fst (PI_call (unit_interval (fixed_model (Flat [(Fin 0, Fin 1)]) (Fin 0)) (1 / 10))
        [[2], [1 / 2]] None False []) \<noteq> Inr (Score [[Fin 0]])"
  by (simp add: PI_call_def unit_interval_simps np_any_gt_def)

section \<open>Probability of improvement at zero variance\<close>




section \<open>The deterministic scenario\<close>

text \<open>
  C7, as amended. For the in-bounds input with predicted mean \<open>-5\<close>, variance \<open>0\<close>, incumbent
  \<open>0\<close> and margin \<open>0.01\<close>, \<open>LogEI.__call__\<close> returns \<open>log 5\<close> (the margin is multiplied by
  \<open>sigma = 0\<close>) and \<open>PI.__call__\<close> returns 1.
\<close>

theorem deterministic_better_scenario:
  "fst (LogEI_call (unit_interval (fixed_model (Flat [(Fin (- 5), Fin 0)]) (Fin 0)) (1 / 100))
     [[1 / 2]] None False []) = Inr [[Fin (ln 5)]]
   \<and> fst (PI_call (unit_interval (fixed_model (Flat [(Fin (- 5), Fin 0)]) (Fin 0)) (1 / 100))
     [[1 / 2]] None False []) = Inr (Score [[Fin 1]])"
  using half_in_unit_interval
  by (simp add: LogEI_call_in_bounds PI_call_in_bounds unit_interval_simps fixed_model_simps
      log_ei_of_zero_var pi_of_zero_var)

text \<open>The value \<open>log 4.99\<close> of the claim as stated is not what \<open>LogEI.__call__\<close> returns.\<close>

theorem deterministic_better_scenario_counterexample:
  "fst (LogEI_call (unit_interval (fixed_model (Flat [(Fin (- 5), Fin 0)]) (Fin 0)) (1 / 100))
     [[1 / 2]] None False []) \<noteq> Inr [[Fin (ln (499 / 100))]]"
proof -
  have "ln (5 :: real) \<noteq> ln (499 / 100)"
    by simp
  then show ?thesis
    using half_in_unit_interval
    by (simp add: LogEI_call_in_bounds unit_interval_simps fixed_model_simps log_ei_of_zero_var)
qed

section \<open>The shape of the prediction in PI\<close>

text \<open>
  C10. For an in-bounds call of \<open>PI.__call__\<close> on one row, when the model's \<open>predict\<close> returns a
  two-dimensional mean, \<open>return_f\<close> is never assigned: without the derivative the call fails
  with the unbound-local-variable error; with the derivative it fails too, with that same
  error whenever the gradient computation goes through. So no score is returned unless the
  mean is one-dimensional.
\<close>

theorem PI_two_dimensional_mean_unbound:
  assumes "length X = 1" "\<not> np_any_lt X (X_lower self)" "\<not> np_any_gt X (X_upper self)"
    and "predict (model self) X Z = Column c"
  shows "fst (PI_call self X Z False tr) = Inl UnboundLocalError \<and>
    (\<exists>err. fst (PI_call self X Z derivative tr) = Inl err) \<and>
    (predictive_gradients (model self) X \<noteq> [] \<and>
     broadcastable (length (hd (predictive_gradients (model self) X))) (length c)
       \<longrightarrow> fst (PI_call self X Z True tr) = Inl UnboundLocalError)"
  using assms
  by (cases "predictive_gradients (model self) X")
     (simp_all add: PI_call_def Let_def)

theorem PI_two_dimensional_mean_unbound_witness:
  "length [[1 / 2 :: real]] = 1 \<and> \<not> np_any_lt [[1 / 2]] [0] \<and> \<not> np_any_gt [[1 / 2]] [1] \<and>
   fst (PI_call (unit_interval (fixed_model (Column [(Fin 0, Fin 1)]) (Fin 0)) (1 / 10))
     [[1 / 2]] None False []) = Inl UnboundLocalError \<and>
   fst (PI_call (unit_interval (fixed_model (Column [(Fin 0, Fin 1)]) (Fin 0)) (1 / 10))
     [[1 / 2]] None True []) = Inl UnboundLocalError"
  using PI_two_dimensional_mean_unbound [of "[[1 / 2]]"
      "unit_interval (fixed_model (Column [(Fin 0, Fin 1)]) (Fin 0)) (1 / 10)" None
      "[(Fin 0, Fin 1)]" "[]" True]
    half_in_unit_interval
  by (simp add: unit_interval_simps fixed_model_simps fixed_model_def broadcastable_def)

section \<open>Monotonicity\<close>












end
